theory Spec2Isabelle
  imports Main "HOL-Library.Sublist"
begin

section \<open>Python strings\<close>

text \<open>
  A Python \<open>str\<close> is modelled as a \<open>string\<close> holding its UTF-8 bytes (a well-formed
  encoding, as every \<open>str\<close> read from the console or from the transcript is). The
  texts that the program compares against (\<open>"successfully"\<close>, \<open>"calendar"\<close>,
  \<open>"email"\<close>, \<open>"meet link"\<close>, the names, the commands) are ASCII.
\<close>

definition lower_char :: "char \<Rightarrow> char" where
  "lower_char c =
     (case map_of (zip ''ABCDEFGHIJKLMNOPQRSTUVWXYZ'' ''abcdefghijklmnopqrstuvwxyz'') c of
        Some l \<Rightarrow> l
      | None \<Rightarrow> c)"

text \<open>
  \<open>str.lower\<close>. An ASCII letter goes to its lower-case letter. Two code points
  outside ASCII have a lower-case form with an ASCII letter in it: U+212A (the Kelvin
  sign, bytes \<open>E2 84 AA\<close>) becomes \<open>k\<close>, and U+0130 (capital I with a dot, bytes
  \<open>C4 B0\<close>) becomes \<open>i\<close> followed by U+0307 (bytes \<open>CC 87\<close>). Every other code
  point outside ASCII is mapped by Python to code points outside ASCII; it is kept as
  it is here, which no comparison with an ASCII text can tell apart.
\<close>

fun lower :: "string \<Rightarrow> string" where
  "lower [] = []"
| "lower (c # s) =
     (if prefix [CHR 0xE2, CHR 0x84, CHR 0xAA] (c # s) then CHR ''k'' # lower (drop 2 s)
      else if prefix [CHR 0xC4, CHR 0xB0] (c # s)
        then [CHR ''i'', CHR 0xCC, CHR 0x87] @ lower (drop 1 s)
      else lower_char c # lower s)"

text \<open>\<open>needle in hay\<close>: the needle occurs as a contiguous run of characters.\<close>

fun py_in :: "string \<Rightarrow> string \<Rightarrow> bool" where
  "py_in needle [] = (needle = [])"
| "py_in needle (c # cs) = (prefix needle (c # cs) \<or> py_in needle cs)"

text \<open>
  \<open>str.strip()\<close> removes, at both ends, the code points for which \<open>str.isspace\<close>
  holds. In ASCII these are 9 to 13, 28 to 31 and 32; the others are U+0085 and
  U+00A0 (two bytes each) and U+1680, U+2000 to U+200A, U+2028, U+2029, U+202F,
  U+205F and U+3000 (three bytes each).
\<close>

definition is_space :: "char \<Rightarrow> bool" where
  "is_space c = ((of_char c :: nat) = 32 \<or> ((9::nat) \<le> of_char c \<and> (of_char c :: nat) \<le> 13)
                 \<or> ((28::nat) \<le> of_char c \<and> (of_char c :: nat) \<le> 31))"

definition space2 :: "string list" where
  "space2 = [[CHR 0xC2, CHR 0x85], [CHR 0xC2, CHR 0xA0]]"

definition space3 :: "string list" where
  "space3 =
     [[CHR 0xE1, CHR 0x9A, CHR 0x80],
      [CHR 0xE2, CHR 0x80, CHR 0x80], [CHR 0xE2, CHR 0x80, CHR 0x81],
      [CHR 0xE2, CHR 0x80, CHR 0x82], [CHR 0xE2, CHR 0x80, CHR 0x83],
      [CHR 0xE2, CHR 0x80, CHR 0x84], [CHR 0xE2, CHR 0x80, CHR 0x85],
      [CHR 0xE2, CHR 0x80, CHR 0x86], [CHR 0xE2, CHR 0x80, CHR 0x87],
      [CHR 0xE2, CHR 0x80, CHR 0x88], [CHR 0xE2, CHR 0x80, CHR 0x89],
      [CHR 0xE2, CHR 0x80, CHR 0x8A],
      [CHR 0xE2, CHR 0x80, CHR 0xA8], [CHR 0xE2, CHR 0x80, CHR 0xA9],
      [CHR 0xE2, CHR 0x80, CHR 0xAF],
      [CHR 0xE2, CHR 0x81, CHR 0x9F],
      [CHR 0xE3, CHR 0x80, CHR 0x80]]"

text \<open>
  Removing the white space at the front, given the two-byte and the three-byte
  encodings to look for. The back is done on the reversed text with the reversed
  encodings: in well-formed UTF-8 the bytes of one of these encodings at the end of
  the text are the last code point.
\<close>

fun lstrip_with :: "string list \<Rightarrow> string list \<Rightarrow> string \<Rightarrow> string" where
  "lstrip_with w2 w3 [] = []"
| "lstrip_with w2 w3 (c # s) =
     (if is_space c then lstrip_with w2 w3 s
      else if list_ex (\<lambda>w. prefix w (c # s)) w2 then lstrip_with w2 w3 (drop 1 s)
      else if list_ex (\<lambda>w. prefix w (c # s)) w3 then lstrip_with w2 w3 (drop 2 s)
      else c # s)"

definition lstrip :: "string \<Rightarrow> string" where
  "lstrip s = lstrip_with space2 space3 s"

definition rstrip :: "string \<Rightarrow> string" where
  "rstrip s = rev (lstrip_with (map rev space2) (map rev space3) (rev s))"

definition strip :: "string \<Rightarrow> string" where
  "strip s = rstrip (lstrip s)"

definition nl :: string where
  "nl = [CHR 0x0A]"

definition quote :: string where
  "quote = [CHR 0x27]"

text \<open>
  \<open>str\<close> of a list of strings, as an f-string renders it: each element in single
  quotes (the slot strings of this program hold no quote, backslash or control
  character, for which \<open>repr\<close> would escape).
\<close>

fun join :: "string \<Rightarrow> string list \<Rightarrow> string" where
  "join sep [] = []"
| "join sep [x] = x"
| "join sep (x # y # ys) = x @ sep @ join sep (y # ys)"

definition str_list :: "string list \<Rightarrow> string" where
  "str_list xs = ''['' @ join '', '' (map (\<lambda>s. quote @ s @ quote) xs) @ '']''"

section \<open>The scripted agent (ai_agent.py, first part)\<close>

subsection \<open>Fake tools\<close>

text \<open>\<open>CalendarAPI.check_availability\<close>: \<open>slots.get(person, [])\<close>.\<close>

definition CalendarAPI_slots :: "(string \<times> string list) list" where
  "CalendarAPI_slots =
     [(''user'', [''Wed 10AM'', ''Thu 11AM'']),
      (''Priya'', [''Thu 11AM'', ''Fri 2PM''])]"

definition check_availability :: "string \<Rightarrow> string list" where
  "check_availability person =
     (case map_of CalendarAPI_slots person of Some v \<Rightarrow> v | None \<Rightarrow> [])"

text \<open>\<open>EmailAPI.draft_email\<close>.\<close>

definition draft_email :: "string \<Rightarrow> string \<Rightarrow> string \<Rightarrow> string" where
  "draft_email to subject body =
     ''Drafted email to '' @ to @ '' with subject '' @ quote @ subject @ quote @ '': '' @ body"

subsection \<open>Step records and the mock backend\<close>

text \<open>
  The backend hands back \<open>json.dumps\<close> of a dict of five string fields and the loop
  reads it with \<open>json.loads\<close>; the decoded dict is the step record.
\<close>

record step_record =
  thought :: string
  plan :: string
  action :: string
  observation :: string
  final_answer :: string

text \<open>
  A backend is an object with a \<open>run(task)\<close> method and a state of its own:
  \<open>run task g\<close> is the record returned and the state afterwards.
\<close>

type_synonym 'g backend = "string \<Rightarrow> 'g \<Rightarrow> step_record \<times> 'g"

text \<open>\<open>FakeGPT\<close>: the state is the counter \<open>self.step\<close>, 0 at construction.\<close>

definition FakeGPT_init :: nat where
  "FakeGPT_init = 0"

definition FakeGPT_run :: "nat backend" where
  "FakeGPT_run task st =
     (let st' = st + 1 in
      if st' = 1 then
        (\<lparr>thought = ''I need to start by checking calendars.'',
          plan = ''Step 1: Call CalendarAPI for user and Priya.'',
          action = ''CalendarAPI.check_availability'',
          observation = ''None yet.'',
          final_answer = ''Checking availability...''\<rparr>, st')
      else if st' = 2 then
        (\<lparr>thought = ''Now I have both calendars. I should find a common slot.'',
          plan = ''Compare availability of user and Priya.'',
          action = ''none'',
          observation = ''User: Wed 10AM, Thu 11AM | Priya: Thu 11AM, Fri 2PM'',
          final_answer = ''Both are free on Thu 11AM. Should I draft an email?''\<rparr>, st')
      else if st' = 3 then
        (\<lparr>thought = ''I should draft a confirmation email to Priya.'',
          plan = ''Use EmailAPI to create a draft.'',
          action = ''EmailAPI.draft_email'',
          observation = ''None yet.'',
          final_answer = ''Drafting the email now.''\<rparr>, st')
      else
        (\<lparr>thought = ''The task is complete.'',
          plan = ''No further action needed.'',
          action = ''none'',
          observation = ''All done.'',
          final_answer = ''Email drafted successfully and meeting scheduled.''\<rparr>, st'))"

subsection \<open>The agent loop\<close>

text \<open>
  The local state of \<open>AIAgent.run\<close>: the counter \<open>step\<close>, the flag \<open>done\<close> (field \<open>done_flag\<close>), the
  backend's state, and what has been printed (one entry for each \<open>print\<close> call, in
  order; \<open>print\<close> joins its arguments with a blank).
\<close>

record 'g agent_state =
  step :: nat
  done_flag :: bool
  gpt :: 'g
  printed :: "string list"

text \<open>Part 3 of the loop body: the \<open>if\<close>/\<open>elif\<close> on the action, with no \<open>else\<close>.\<close>

definition execute_tool :: "step_record \<Rightarrow> step_record" where
  "execute_tool parsed =
     (if action parsed = ''CalendarAPI.check_availability'' then
        (let obs_user = check_availability ''user'';
             obs_priya = check_availability ''Priya''
         in parsed\<lparr>observation :=
              ''User: '' @ str_list obs_user @ '' | Priya: '' @ str_list obs_priya\<rparr>)
      else if action parsed = ''EmailAPI.draft_email'' then
        (let email = draft_email ''Priya'' ''Meeting Confirmation''
                       ''Hi Priya, confirming our meeting on Thu 11AM.''
         in parsed\<lparr>observation := email\<rparr>)
      else parsed)"

text \<open>The stop test: \<open>"successfully" in parsed["final_answer"].lower()\<close>.\<close>

definition completion :: "string \<Rightarrow> bool" where
  "completion fa = py_in ''successfully'' (lower fa)"

text \<open>The lines one step prints, given its counter, the record and the record after the tool.\<close>

definition step_lines :: "string \<Rightarrow> step_record \<Rightarrow> step_record \<Rightarrow> string list" where
  "step_lines n parsed parsed' =
     [''--- Step '' @ n @ '' ---'',
      ''Thought: '' @ thought parsed,
      ''Plan: '' @ plan parsed,
      ''Action: '' @ action parsed,
      ''Observation: '' @ observation parsed',
      ''Final Answer: '' @ final_answer parsed' @ '' '' @ nl]"

text \<open>Decimal rendering of the step counter (it stays below 10 in this loop).\<close>

definition digit_char :: "nat \<Rightarrow> char" where
  "digit_char d = ''0123456789'' ! (d mod 10)"

fun digits :: "nat \<Rightarrow> nat \<Rightarrow> string" where
  "digits 0 n = []"
| "digits (Suc fuel) n =
     (if n < 10 then [digit_char n]
      else digits fuel (n div 10) @ [digit_char (n mod 10)])"

definition str_nat :: "nat \<Rightarrow> string" where
  "str_nat n = digits (Suc n) n"

definition loop_body :: "'g backend \<Rightarrow> string \<Rightarrow> 'g agent_state \<Rightarrow> 'g agent_state" where
  "loop_body run task s =
     (let step' = step s + 1;
          (parsed, g') = run task (gpt s);
          parsed' = execute_tool parsed
      in \<lparr>step = step',
          done_flag = (if completion (final_answer parsed') then True else done_flag s),
          gpt = g',
          printed = printed s @ step_lines (str_nat step') parsed parsed'\<rparr>)"

text \<open>\<open>while not done and step < 5\<close>.\<close>

function agent_loop :: "'g backend \<Rightarrow> string \<Rightarrow> 'g agent_state \<Rightarrow> 'g agent_state" where
  "agent_loop run task s =
     (if \<not> done_flag s \<and> step s < 5 then agent_loop run task (loop_body run task s) else s)"
  by pat_completeness auto
termination
  by (relation "measure (\<lambda>(run, task, s). 5 - step s)")
     (auto simp: loop_body_def Let_def split: prod.splits)

declare agent_loop.simps [simp del]

text \<open>
  \<open>AIAgent.run\<close> has no \<open>return\<close>: the caller gets \<open>None\<close> (the unit value below). The
  final local state is kept beside it for the statements about the loop.
\<close>

definition agent_init :: "'g \<Rightarrow> string \<Rightarrow> 'g agent_state" where
  "agent_init g task =
     \<lparr>step = 0, done_flag = False, gpt = g, printed = [''User task: '' @ task @ nl]\<rparr>"

definition run_state :: "'g backend \<Rightarrow> 'g \<Rightarrow> string \<Rightarrow> 'g agent_state" where
  "run_state run g task = agent_loop run task (agent_init g task)"

definition AIAgent_run :: "'g backend \<Rightarrow> 'g \<Rightarrow> string \<Rightarrow> unit" where
  "AIAgent_run run g task = (let s = run_state run g task in ())"

text \<open>The record returned by the \<open>i\<close>-th call of the backend after this one (from 0).\<close>

fun response :: "'g backend \<Rightarrow> string \<Rightarrow> 'g \<Rightarrow> nat \<Rightarrow> step_record" where
  "response run task g 0 = fst (run task g)"
| "response run task g (Suc i) = response run task (snd (run task g)) i"

text \<open>A test double: a backend with no state that returns the same record at every call.\<close>

definition waiting_record :: step_record where
  "waiting_record =
     \<lparr>thought = ''Still looking.'',
      plan = ''Keep going.'',
      action = ''none'',
      observation = ''Nothing new.'',
      final_answer = ''Working on it...''\<rparr>"

definition waiting_run :: "unit backend" where
  "waiting_run task g = (waiting_record, g)"

definition example_task :: string where
  "example_task = ''Schedule a meeting with Priya next week and send her a confirmation email.''"

text \<open>A step record whose action names no tool of the agent, and a backend that returns it.\<close>

definition unknown_action_record :: step_record where
  "unknown_action_record =
     \<lparr>thought = ''I should look at the weather.'',
      plan = ''Ask the weather service.'',
      action = ''WeatherAPI.forecast'',
      observation = ''None yet.'',
      final_answer = ''Looking up the weather.''\<rparr>"

definition unknown_run :: "unit backend" where
  "unknown_run task g = (unknown_action_record, g)"

section \<open>The history store (gemini_chat.py and the assistant in ai_agent.py)\<close>

text \<open>
  The transcript file holds one JSON text per line. A line is modelled by what
  \<open>json.loads\<close> makes of it: a dict (here with string values), or a failure to parse.
  \<open>json.loads (json.dumps d)\<close> is \<open>d\<close> again, and \<open>json.dumps\<close> writes no line break,
  so a line that holds just what \<open>append_history\<close> writes is the dict it was given.

  A file is the lines that end with a line break, and the text after the last line
  break, its tail: nothing (the file is empty or ends with a line break), blanks and
  tabs only, or other text, kept as what \<open>json.loads\<close> makes of it. The file is
  \<open>None\<close> while it does not exist.
\<close>

datatype transcript_line = Object "string \<rightharpoonup> string" | Unparseable

datatype tail = Terminated | Blank | Dangling transcript_line

record transcript_text =
  ended :: "transcript_line list"
  tail :: tail

type_synonym transcript_file = "transcript_text option"

text \<open>
  The lines that \<open>for line in f\<close> yields: the tail, when there is one, is the last
  line. \<open>json.loads\<close> raises on a text of blanks only.
\<close>

definition read_lines :: "transcript_text \<Rightarrow> transcript_line list" where
  "read_lines tr =
     ended tr @ (case tail tr of Terminated \<Rightarrow> [] | Blank \<Rightarrow> [Unparseable] | Dangling l \<Rightarrow> [l])"

text \<open>
  Writing the text of a dict and a line break at the end of the file (mode \<open>"a"\<close>).
  After a tail the text joins the tail's line: behind blanks it still parses to the
  dict (\<open>json.loads\<close> skips leading white space); behind any other text the line
  does not parse (extra data after a complete value, or a value left incomplete).
\<close>

definition write_line :: "(string \<rightharpoonup> string) \<Rightarrow> transcript_text \<Rightarrow> transcript_text" where
  "write_line d tr =
     (case tail tr of
        Terminated \<Rightarrow> \<lparr>ended = ended tr @ [Object d], tail = Terminated\<rparr>
      | Blank \<Rightarrow> \<lparr>ended = ended tr @ [Object d], tail = Terminated\<rparr>
      | Dangling l \<Rightarrow> \<lparr>ended = ended tr @ [Unparseable], tail = Terminated\<rparr>)"

definition empty_file :: transcript_text where
  "empty_file = \<lparr>ended = [], tail = Terminated\<rparr>"

datatype load_error = JSONDecodeError | KeyError string

record entry =
  role :: string
  parts :: "string list"

text \<open>
  \<open>append_history\<close>, the same in both files; \<open>now\<close> is the clock reading
  \<open>datetime.now(timezone.utc).isoformat()\<close>. Opening with \<open>"a"\<close> creates a missing file.
\<close>

definition append_history :: "string \<Rightarrow> string \<Rightarrow> string \<Rightarrow> transcript_file \<Rightarrow> transcript_file" where
  "append_history now r c f =
     Some (write_line [''ts'' \<mapsto> now, ''role'' \<mapsto> r, ''content'' \<mapsto> c]
             (case f of None \<Rightarrow> empty_file | Some tr \<Rightarrow> tr))"

definition reset_history :: "transcript_file \<Rightarrow> transcript_file" where
  "reset_history f = None"

text \<open>\<open>load_history\<close> of gemini_chat.py: the loop over the lines, with the list built so far.\<close>

fun load_lines_chat :: "transcript_line list \<Rightarrow> entry list \<Rightarrow> load_error + entry list" where
  "load_lines_chat [] history = Inr history"
| "load_lines_chat (Unparseable # ls) history = Inl JSONDecodeError"
| "load_lines_chat (Object rec # ls) history =
     (case rec ''role'' of
        None \<Rightarrow> Inl (KeyError ''role'')
      | Some r \<Rightarrow>
          (case rec ''content'' of
             None \<Rightarrow> Inl (KeyError ''content'')
           | Some c \<Rightarrow>
               if r \<in> set [''user'', ''model'']
               then load_lines_chat ls (history @ [\<lparr>role = r, parts = [c]\<rparr>])
               else load_lines_chat ls history))"

definition load_history_chat :: "transcript_file \<Rightarrow> load_error + entry list" where
  "load_history_chat f =
     (case f of None \<Rightarrow> Inr [] | Some tr \<Rightarrow> load_lines_chat (read_lines tr) [])"

text \<open>\<open>load_history\<close> of the assistant (ai_agent.py): no test on the role.\<close>

fun load_lines_assistant :: "transcript_line list \<Rightarrow> entry list \<Rightarrow> load_error + entry list" where
  "load_lines_assistant [] history = Inr history"
| "load_lines_assistant (Unparseable # ls) history = Inl JSONDecodeError"
| "load_lines_assistant (Object rec # ls) history =
     (case rec ''role'' of
        None \<Rightarrow> Inl (KeyError ''role'')
      | Some r \<Rightarrow>
          (case rec ''content'' of
             None \<Rightarrow> Inl (KeyError ''content'')
           | Some c \<Rightarrow> load_lines_assistant ls (history @ [\<lparr>role = r, parts = [c]\<rparr>])))"

definition load_history_assistant :: "transcript_file \<Rightarrow> load_error + entry list" where
  "load_history_assistant f =
     (case f of None \<Rightarrow> Inr [] | Some tr \<Rightarrow> load_lines_assistant (read_lines tr) [])"

text \<open>A turn handed to \<open>append_history\<close>: the clock reading, the role and the content.\<close>

type_synonym turn = "string \<times> string \<times> string"

definition append_turn :: "transcript_file \<Rightarrow> turn \<Rightarrow> transcript_file" where
  "append_turn f t = (case t of (now, r, c) \<Rightarrow> append_history now r c f)"

definition append_all :: "turn list \<Rightarrow> transcript_file \<Rightarrow> transcript_file" where
  "append_all ts f = foldl append_turn f ts"

definition turn_entry :: "turn \<Rightarrow> entry" where
  "turn_entry t = (case t of (now, r, c) \<Rightarrow> \<lparr>role = r, parts = [c]\<rparr>)"

definition turn_role :: "turn \<Rightarrow> string" where
  "turn_role t = (case t of (now, r, c) \<Rightarrow> r)"

text \<open>The turns that \<open>load_history\<close> of gemini_chat.py keeps: \<open>role in ["user", "model"]\<close>.\<close>

definition kept :: "turn \<Rightarrow> bool" where
  "kept t = (turn_role t = ''user'' \<or> turn_role t = ''model'')"

text \<open>
  The file is missing, or is empty, or ends with a line break. \<open>append_history\<close>
  ends what it writes with a line break, so every transcript that only this program
  has written is of this kind.
\<close>

definition line_terminated :: "transcript_file \<Rightarrow> bool" where
  "line_terminated f = (case f of None \<Rightarrow> True | Some tr \<Rightarrow> tail tr = Terminated)"

section \<open>The tool router (ai_agent.py, assistant part, and gemini_real_assistant.py)\<close>

text \<open>
  A tool call made while routing is recorded beside the result, so that a statement
  can say which capability was invoked and with what arguments.
\<close>

datatype tool_call =
    CheckCalendar string
  | SendEmail string string string
  | CheckCalendarReal
  | CreateMeeting

fun is_email_call :: "tool_call \<Rightarrow> bool" where
  "is_email_call (SendEmail to subject body) = True"
| "is_email_call c = False"

definition apostrophe :: string where
  "apostrophe = [CHR 0xE2, CHR 0x80, CHR 0x99]"

text \<open>\<open>check_calendar(user)\<close> of the assistant: the default is a one-element list.\<close>

definition check_calendar_slots :: "(string \<times> string list) list" where
  "check_calendar_slots =
     [(''shivam'', [''Wed 10AM'', ''Thu 11AM'']),
      (''priya'', [''Thu 11AM'', ''Fri 2PM''])]"

definition check_calendar :: "string \<Rightarrow> string list" where
  "check_calendar user =
     (case map_of check_calendar_slots (lower user) of
        Some v \<Rightarrow> v
      | None \<Rightarrow> [''No availability found.''])"

definition send_email :: "string \<Rightarrow> string \<Rightarrow> string \<Rightarrow> string" where
  "send_email to subject body =
     ''Email sent to '' @ to @ '' with subject '' @ quote @ subject @ quote
       @ '' and body '' @ quote @ body @ quote"

text \<open>The calendar branch and the email branch of \<open>handle_tools\<close>, on the lowered text.\<close>

definition calendar_branch :: "string \<Rightarrow> tool_call list \<times> string option" where
  "calendar_branch text =
     (if py_in ''priya'' text then
        ([CheckCalendar ''priya''],
         Some (''Priya'' @ apostrophe @ ''s availability: '' @ str_list (check_calendar ''priya'')))
      else if py_in ''shivam'' text then
        ([CheckCalendar ''shivam''],
         Some (''Shivam'' @ apostrophe @ ''s availability: '' @ str_list (check_calendar ''shivam'')))
      else ([], Some ''Whose calendar do you want to check?''))"

definition email_branch :: "string \<Rightarrow> tool_call list \<times> string option" where
  "email_branch text =
     (let recipient =
            (if py_in ''priya'' text then ''priya@example.com''
             else if py_in ''shivam'' text then ''raishivam313@gmail.com''
             else ''someone@example.com'');
          subject = ''Meeting'';
          body = ''Let'' @ apostrophe @ ''s connect at Thu 11AM.''
      in ([SendEmail recipient subject body], Some (send_email recipient subject body)))"

definition handle_tools_assistant :: "string \<Rightarrow> tool_call list \<times> string option" where
  "handle_tools_assistant user_input =
     (let text = lower user_input in
      if py_in ''calendar'' text then calendar_branch text
      else if py_in ''email'' text then email_branch text
      else ([], None))"

text \<open>
  gemini_real_assistant.py: the tools call Google services, which are parameters
  here. \<open>Inl\<close> is the exception raised, \<open>Inr\<close> the text of what is returned (as the
  f-string renders it); \<open>get_service_real\<close> is the exception that the call of
  \<open>get_service\<close> in \<open>create_meeting\<close> raises, if it raises. An exception leaves
  \<open>handle_tools\<close> uncaught.
\<close>

record real_tools =
  check_calendar_real :: "string + string"
  get_service_real :: "string option"
  send_email_real :: "string \<Rightarrow> string \<Rightarrow> string \<Rightarrow> string + string"

text \<open>
  \<open>create_meeting()\<close>: after \<open>get_service\<close> has returned, line 74 computes the end
  time with \<open>timedelta(minutes=duration)\<close>. The module imports \<open>datetime\<close> and
  \<open>timezone\<close> only, so the name is unbound and the call raises \<open>NameError\<close>; the
  rest of the function is never reached.
\<close>

definition timedelta_unbound :: string where
  "timedelta_unbound = ''name '' @ quote @ ''timedelta'' @ quote @ '' is not defined''"

definition create_meeting :: "real_tools \<Rightarrow> string + string" where
  "create_meeting tools =
     (case get_service_real tools of
        Some e \<Rightarrow> Inl e
      | None \<Rightarrow> Inl timedelta_unbound)"

definition handle_tools_real ::
  "real_tools \<Rightarrow> string \<Rightarrow> tool_call list \<times> (string + string option)" where
  "handle_tools_real tools user_input =
     (let text = lower user_input in
      if py_in ''calendar'' text then
        (case check_calendar_real tools of
           Inl e \<Rightarrow> ([CheckCalendarReal], Inl e)
         | Inr v \<Rightarrow>
             ([CheckCalendarReal],
              Inr (Some ([CHR 0xF0, CHR 0x9F, CHR 0x93, CHR 0x85] @ '' Upcoming events: '' @ v))))
      else if py_in ''meeting'' text \<or> py_in ''meet link'' text then
        (case create_meeting tools of
           Inl e \<Rightarrow> ([CreateMeeting], Inl e)
         | Inr link \<Rightarrow>
             ([CreateMeeting],
              Inr (Some ([CHR 0xE2, CHR 0x9C, CHR 0x85]
                         @ '' Meeting created with Google Meet link: '' @ link))))
      else if py_in ''email'' text then
        (let recipient =
               (if py_in ''shivam'' text then ''raishivam313@gmail.com''
                else ''someone@example.com'');
             subject = ''Meeting Link''
         in case create_meeting tools of
              Inl e \<Rightarrow> ([CreateMeeting], Inl e)
            | Inr link \<Rightarrow>
                (let body = ''Here'' @ apostrophe @ ''s your meeting link: '' @ link
                 in case send_email_real tools recipient subject body of
                      Inl e \<Rightarrow> ([CreateMeeting, SendEmail recipient subject body], Inl e)
                    | Inr v \<Rightarrow> ([CreateMeeting, SendEmail recipient subject body], Inr (Some v))))
      else ([], Inr None))"

section \<open>The interactive chat (gemini_chat.py and the assistant in ai_agent.py)\<close>

text \<open>
  What \<open>chat.send_message(user, stream=True)\<close> and the loop over the stream meet:
  the call raises, or it gives a stream that yields some chunks and then ends or
  raises. A chunk has no candidate, or a candidate with no part, or a first part
  whose \<open>text\<close> may be \<open>None\<close>.

  What is raised is an instance of \<open>Exception\<close>, with the text that \<open>str\<close> gives for
  it, or another \<open>BaseException\<close> (\<open>KeyboardInterrupt\<close>, \<open>SystemExit\<close>), which
  \<open>except Exception\<close> does not catch.
\<close>

datatype chunk = NoCandidates | NoParts | Part "string option"

datatype failure = Error string | Abort

datatype reply = SendFails failure | Stream "chunk list" "failure option"

fun reply_fails :: "reply \<Rightarrow> bool" where
  "reply_fails (SendFails e) = True"
| "reply_fails (Stream chunks (Some e)) = True"
| "reply_fails (Stream chunks None) = False"

fun reply_caught :: "reply \<Rightarrow> bool" where
  "reply_caught (SendFails (Error e)) = True"
| "reply_caught (SendFails Abort) = False"
| "reply_caught (Stream chunks (Some (Error e))) = True"
| "reply_caught (Stream chunks (Some Abort)) = False"
| "reply_caught (Stream chunks None) = False"

text \<open>
  What one pass of the \<open>while True\<close> loop reads from its surroundings: the model's
  reply, and the clock at the first and at the second \<open>append_history\<close>.
\<close>

record turn_env =
  model_reply :: reply
  now_user :: string
  now_model :: string

text \<open>\<open>input\<close> returns a line or raises \<open>EOFError\<close>/\<open>KeyboardInterrupt\<close>.\<close>

datatype read = Interrupted | Typed string

text \<open>
  The state of the session: the transcript file, the history the chat object was
  started with, and the text written to the console (one entry for each write).
\<close>

record chat_state =
  transcript :: transcript_file
  chat :: "entry list"
  console :: "string list"

text \<open>
  How a pass of the loop ends: \<open>continue\<close> (or the end of the body), \<open>break\<close>, or an
  exception that nothing catches and that leaves \<open>interactive_chat\<close>; the state is
  the one reached at that point.
\<close>

datatype uncaught = LoadError load_error | BaseException

datatype flow = Continue chat_state | Break chat_state | Raise uncaught chat_state

definition emit :: "string \<Rightarrow> chat_state \<Rightarrow> chat_state" where
  "emit text s = s\<lparr>console := console s @ [text]\<rparr>"

definition bye :: string where
  "bye = ''Bye! '' @ [CHR 0xF0, CHR 0x9F, CHR 0x91, CHR 0x8B]"

definition memory_cleared :: string where
  "memory_cleared = [CHR 0xF0, CHR 0x9F, CHR 0xA7, CHR 0xB9] @ '' Memory cleared.''"

definition SYSTEM_PROMPT_chat :: string where
  "SYSTEM_PROMPT_chat =
     ''You are a helpful, concise assistant. ''
     @ ''Always answer clearly and ask a brief follow-up question when useful.''"

definition SYSTEM_PROMPT_assistant :: string where
  "SYSTEM_PROMPT_assistant =
     ''You are Shivam'' @ apostrophe @ ''s AI assistant. ''
     @ ''You can chat naturally, but when useful, call tools like Calendar and Email. ''
     @ ''Always explain your reasoning briefly before/after tool use.''"

definition start_chat_chat :: "transcript_file \<Rightarrow> load_error + entry list" where
  "start_chat_chat f =
     (case load_history_chat f of
        Inl e \<Rightarrow> Inl e
      | Inr h \<Rightarrow> Inr (\<lparr>role = ''user'', parts = [''(Instruction) '' @ SYSTEM_PROMPT_chat]\<rparr> # h))"

definition start_chat_assistant :: "transcript_file \<Rightarrow> load_error + entry list" where
  "start_chat_assistant f =
     (case load_history_assistant f of
        Inl e \<Rightarrow> Inl e
      | Inr h \<Rightarrow> Inr (\<lparr>role = ''user'', parts = [SYSTEM_PROMPT_assistant]\<rparr> # h))"

text \<open>The loop over the stream: \<open>full_text\<close> and the pieces printed, in order.\<close>

fun consume :: "chunk list \<Rightarrow> string \<Rightarrow> string list \<Rightarrow> string \<times> string list" where
  "consume [] full_text out = (full_text, out)"
| "consume (NoCandidates # cs) full_text out = consume cs full_text out"
| "consume (NoParts # cs) full_text out = consume cs full_text out"
| "consume (Part t # cs) full_text out =
     (let piece = (case t of None \<Rightarrow> [] | Some x \<Rightarrow> x)
      in consume cs (full_text @ piece) (out @ [piece]))"

text \<open>
  The block that both files share word for word: persist the user message, send it,
  print the stream, and persist the reply. An \<open>Exception\<close> raised in the \<open>try\<close> is
  caught: its text is printed and the loop goes on with no second append. Any other
  exception passes through the \<open>except\<close> clause and leaves the function.
\<close>

definition model_turn :: "string \<Rightarrow> turn_env \<Rightarrow> chat_state \<Rightarrow> flow" where
  "model_turn user env s =
     (let s1 = s\<lparr>transcript := append_history (now_user env) ''user'' user (transcript s)\<rparr>
      in case model_reply env of
           SendFails (Error e) \<Rightarrow> Continue (emit (nl @ ''[Error] '' @ e @ nl) s1)
         | SendFails Abort \<Rightarrow> Raise BaseException s1
         | Stream chunks failure \<Rightarrow>
             (let s2 = emit ''Gemini: '' s1;
                  (full_text, out) = consume chunks [] [];
                  s3 = s2\<lparr>console := console s2 @ out\<rparr>
              in case failure of
                   Some (Error e) \<Rightarrow> Continue (emit (nl @ ''[Error] '' @ e @ nl) s3)
                 | Some Abort \<Rightarrow> Raise BaseException s3
                 | None \<Rightarrow>
                     Continue ((emit nl s3)\<lparr>transcript :=
                        append_history (now_model env) ''model'' full_text (transcript s3)\<rparr>)))"

text \<open>One pass of the loop of gemini_chat.py.\<close>

definition chat_body_chat :: "read \<Rightarrow> turn_env \<Rightarrow> chat_state \<Rightarrow> flow" where
  "chat_body_chat r env s =
     (let s0 = emit ''You: '' s in
      case r of
        Interrupted \<Rightarrow> Break (emit (nl @ bye @ nl) s0)
      | Typed raw \<Rightarrow>
          (let user = strip raw in
           if user = [] then Continue s0
           else if lower user = ''/exit'' then Break (emit (bye @ nl) s0)
           else if lower user = ''/reset'' then
             (let f = reset_history (transcript s0) in
              case start_chat_chat f of
                Inl e \<Rightarrow> Raise (LoadError e) (s0\<lparr>transcript := f\<rparr>)
              | Inr c \<Rightarrow> Continue (emit (memory_cleared @ nl) (s0\<lparr>transcript := f, chat := c\<rparr>)))
           else model_turn user env s0))"

text \<open>
  One pass of the loop of the assistant: the tools are tried first, and
  \<open>if tool_result\<close> holds for a string that is not empty.
\<close>

definition chat_body_assistant :: "read \<Rightarrow> turn_env \<Rightarrow> chat_state \<Rightarrow> flow" where
  "chat_body_assistant r env s =
     (let s0 = emit ''You: '' s in
      case r of
        Interrupted \<Rightarrow> Break (emit (nl @ bye @ nl) s0)
      | Typed raw \<Rightarrow>
          (let user = strip raw in
           if user = [] then Continue s0
           else if lower user = ''/exit'' then Break (emit (bye @ nl) s0)
           else if lower user = ''/reset'' then
             (let f = reset_history (transcript s0) in
              case start_chat_assistant f of
                Inl e \<Rightarrow> Raise (LoadError e) (s0\<lparr>transcript := f\<rparr>)
              | Inr c \<Rightarrow> Continue (emit (memory_cleared @ nl) (s0\<lparr>transcript := f, chat := c\<rparr>)))
           else
             (case snd (handle_tools_assistant user) of
                None \<Rightarrow> model_turn user env s0
              | Some tool_result \<Rightarrow>
                  if tool_result = [] then model_turn user env s0
                  else
                    (let s1 = emit ([CHR 0xF0, CHR 0x9F, CHR 0x94, CHR 0xA7] @ '' Tool: ''
                                    @ tool_result @ nl) s0;
                         f1 = append_history (now_user env) ''user'' user (transcript s1);
                         f2 = append_history (now_model env) ''model'' tool_result f1
                     in Continue (s1\<lparr>transcript := f2\<rparr>)))))"

text \<open>
  The \<open>while True\<close> loop over what the user types; when nothing is left to read,
  \<open>input\<close> raises \<open>EOFError\<close>.
\<close>

fun chat_loop :: "(read \<Rightarrow> turn_env \<Rightarrow> chat_state \<Rightarrow> flow) \<Rightarrow> (read \<times> turn_env) list
                  \<Rightarrow> chat_state \<Rightarrow> uncaught \<times> chat_state + chat_state" where
  "chat_loop body [] s =
     (case body Interrupted \<lparr>model_reply = Stream [] None, now_user = [], now_model = []\<rparr> s of
        Continue s' \<Rightarrow> Inr s' | Break s' \<Rightarrow> Inr s' | Raise e s' \<Rightarrow> Inl (e, s'))"
| "chat_loop body ((r, env) # rest) s =
     (case body r env s of
        Continue s' \<Rightarrow> chat_loop body rest s'
      | Break s' \<Rightarrow> Inr s'
      | Raise e s' \<Rightarrow> Inl (e, s'))"

text \<open>
  \<open>interactive_chat\<close>: the two lines of the banner, \<open>start_chat\<close>, then the loop.
  The chat object does not exist yet when \<open>start_chat\<close> raises (the empty list
  stands for it).
\<close>

definition interactive_chat_chat ::
  "(read \<times> turn_env) list \<Rightarrow> transcript_file \<Rightarrow> uncaught \<times> chat_state + chat_state" where
  "interactive_chat_chat events f =
     (let banner = [''Gemini multi-turn chat on gemini-1.5-flash'' @ nl,
                    ''Commands: /reset (clear memory), /exit (quit)'' @ nl @ nl]
      in case start_chat_chat f of
           Inl e \<Rightarrow> Inl (LoadError e, \<lparr>transcript = f, chat = [], console = banner\<rparr>)
         | Inr c \<Rightarrow>
             chat_loop chat_body_chat events \<lparr>transcript = f, chat = c, console = banner\<rparr>)"

definition interactive_chat_assistant ::
  "(read \<times> turn_env) list \<Rightarrow> transcript_file \<Rightarrow> uncaught \<times> chat_state + chat_state" where
  "interactive_chat_assistant events f =
     (let banner = [[CHR 0xF0, CHR 0x9F, CHR 0xA4, CHR 0x96]
                      @ '' Gemini Assistant (gemini-1.5-flash) ready!'' @ nl,
                    ''Commands: /reset (clear memory), /exit (quit)'' @ nl @ nl]
      in case start_chat_assistant f of
           Inl e \<Rightarrow> Inl (LoadError e, \<lparr>transcript = f, chat = [], console = banner\<rparr>)
         | Inr c \<Rightarrow>
             chat_loop chat_body_assistant events \<lparr>transcript = f, chat = c, console = banner\<rparr>)"

section \<open>Test doubles and readings of the transcript\<close>

text \<open>
  Services for the tools of gemini_real_assistant.py that answer with fixed texts
  and raise nothing.
\<close>

definition stub_tools :: real_tools where
  "stub_tools =
     \<lparr>check_calendar_real = Inr ''No upcoming events.'',
      get_service_real = None,
      send_email_real = (\<lambda>to subject body. Inr (''sent to '' @ to))\<rparr>"

text \<open>A request typed in capitals whose last letter is the Kelvin sign (U+212A).\<close>

definition kelvin_request :: string where
  "kelvin_request = ''EMAIL ME A MEET LIN'' @ [CHR 0xE2, CHR 0x84, CHR 0xAA]"

text \<open>
  A line of the transcript is well formed when it parses to a dict that has the
  keys \<open>role\<close> and \<open>content\<close>; its role and the history entry made from it.
\<close>

fun well_formed :: "transcript_line \<Rightarrow> bool" where
  "well_formed (Object rec) = (rec ''role'' \<noteq> None \<and> rec ''content'' \<noteq> None)"
| "well_formed Unparseable = False"

fun line_role :: "transcript_line \<Rightarrow> string" where
  "line_role (Object rec) = (case rec ''role'' of Some r \<Rightarrow> r | None \<Rightarrow> [])"
| "line_role Unparseable = []"

fun line_entry :: "transcript_line \<Rightarrow> entry" where
  "line_entry (Object rec) =
     \<lparr>role = (case rec ''role'' of Some r \<Rightarrow> r | None \<Rightarrow> []),
      parts = [case rec ''content'' of Some c \<Rightarrow> c | None \<Rightarrow> []]\<rparr>"
| "line_entry Unparseable = \<lparr>role = [], parts = []\<rparr>"

definition replayed :: "transcript_line \<Rightarrow> bool" where
  "replayed l = (line_role l = ''user'' \<or> line_role l = ''model'')"

text \<open>
  A transcript of one earlier user turn, and one of four well-formed lines of which
  two have a role that gemini_chat.py does not replay.
\<close>

definition earlier_file :: transcript_text where
  "earlier_file =
     \<lparr>ended = [Object [''ts'' \<mapsto> ''t0'', ''role'' \<mapsto> ''user'', ''content'' \<mapsto> ''Earlier'']],
      tail = Terminated\<rparr>"

definition mixed_file :: transcript_text where
  "mixed_file =
     \<lparr>ended =
        [Object [''ts'' \<mapsto> ''t1'', ''role'' \<mapsto> ''user'', ''content'' \<mapsto> ''Hi''],
         Object [''ts'' \<mapsto> ''t2'', ''role'' \<mapsto> ''assistant'', ''content'' \<mapsto> ''Hello''],
         Object [''ts'' \<mapsto> ''t3'', ''role'' \<mapsto> ''tool-observation'', ''content'' \<mapsto> ''Thu 11AM''],
         Object [''ts'' \<mapsto> ''t4'', ''role'' \<mapsto> ''model'', ''content'' \<mapsto> ''Done'']],
      tail = Terminated\<rparr>"

text \<open>What a pass of the chat loop leaves in the transcript, and whether the loop goes on.\<close>

fun next_transcript :: "flow \<Rightarrow> transcript_file" where
  "next_transcript (Continue s) = transcript s"
| "next_transcript (Break s) = transcript s"
| "next_transcript (Raise e s) = transcript s"

fun continues :: "flow \<Rightarrow> bool" where
  "continues (Continue s) = True"
| "continues (Break s) = False"
| "continues (Raise e s) = False"

text \<open>
  A reply whose stream raises an \<open>Exception\<close> after one piece, a line typed with
  a no-break space (U+00A0) in front, a reply whose stream is interrupted from the
  keyboard after one piece, and a session with no transcript yet.
\<close>

definition failing_env :: turn_env where
  "failing_env =
     \<lparr>model_reply = Stream [Part (Some ''Hel'')] (Some (Error ''connection lost'')),
      now_user = ''2024-05-01T10:00:00+00:00'',
      now_model = ''2024-05-01T10:00:02+00:00''\<rparr>"

definition padded_question :: string where
  "padded_question = [CHR 0xC2, CHR 0xA0] @ ''What is an e-mail?''"

definition interrupted_env :: turn_env where
  "interrupted_env =
     \<lparr>model_reply = Stream [Part (Some ''Hel'')] (Some Abort),
      now_user = ''2024-05-01T10:05:00+00:00'',
      now_model = ''2024-05-01T10:05:02+00:00''\<rparr>"

definition fresh_session :: chat_state where
  "fresh_session = \<lparr>transcript = None, chat = [], console = []\<rparr>"

section \<open>Properties of the agent loop\<close>

lemma loop_body_step: "step (loop_body run task s) = Suc (step s)"
  by (simp add: loop_body_def Let_def split: prod.splits)

lemma execute_tool_final_answer: "final_answer (execute_tool r) = final_answer r"
  by (simp add: execute_tool_def Let_def)

lemma loop_body_gpt: "gpt (loop_body run task s) = snd (run task (gpt s))"
  by (simp add: loop_body_def Let_def split: prod.splits)

lemma loop_body_done:
  "done_flag (loop_body run task s) =
     (completion (final_answer (fst (run task (gpt s)))) \<or> done_flag s)"
  by (simp add: loop_body_def Let_def execute_tool_final_answer split: prod.splits)

lemmas loop_body_simps = loop_body_step loop_body_gpt loop_body_done

lemma agent_loop_ceiling:
  "\<not> done_flag s \<Longrightarrow> step s + n = 5 \<Longrightarrow>
   \<forall>i<n. \<not> completion (final_answer (response run task (gpt s) i)) \<Longrightarrow>
   step (agent_loop run task s) = 5 \<and> \<not> done_flag (agent_loop run task s)"
proof (induction n arbitrary: s)
  case 0
  then show ?case by (simp add: agent_loop.simps)
next
  case (Suc n)
  let ?s = "loop_body run task s"
  from Suc.prems have a: "\<not> completion (final_answer (fst (run task (gpt s))))"
    by (metis response.simps(1) zero_less_Suc)
  have b: "\<forall>i<n. \<not> completion (final_answer (response run task (gpt ?s) i))"
    using Suc.prems(3) by (auto simp: loop_body_simps)
  have "step (agent_loop run task ?s) = 5 \<and> \<not> done_flag (agent_loop run task ?s)"
    using Suc.IH[of ?s] a b Suc.prems by (simp add: loop_body_simps)
  moreover have "agent_loop run task s = agent_loop run task ?s"
    using Suc.prems by (subst agent_loop.simps) simp
  ultimately show ?case by simp
qed

lemma agent_loop_first:
  "\<not> done_flag s \<Longrightarrow> step s + k < 5 \<Longrightarrow>
   completion (final_answer (response run task (gpt s) k)) \<Longrightarrow>
   \<forall>i<k. \<not> completion (final_answer (response run task (gpt s) i)) \<Longrightarrow>
   step (agent_loop run task s) = step s + Suc k \<and> done_flag (agent_loop run task s)"
proof (induction k arbitrary: s)
  case 0
  let ?s = "loop_body run task s"
  have "agent_loop run task s = agent_loop run task ?s"
    using 0 by (subst agent_loop.simps) simp
  moreover have "agent_loop run task ?s = ?s"
    using 0 by (subst agent_loop.simps) (simp add: loop_body_simps)
  ultimately show ?case using 0 by (simp add: loop_body_simps)
next
  case (Suc k)
  let ?s = "loop_body run task s"
  from Suc.prems have a: "\<not> completion (final_answer (fst (run task (gpt s))))"
    by (metis response.simps(1) zero_less_Suc)
  have b: "\<forall>i<k. \<not> completion (final_answer (response run task (gpt ?s) i))"
    using Suc.prems(4) by (auto simp: loop_body_simps)
  have "step (agent_loop run task ?s) = step ?s + Suc k \<and> done_flag (agent_loop run task ?s)"
    using Suc.IH[of ?s] a b Suc.prems by (simp add: loop_body_simps)
  moreover have "agent_loop run task s = agent_loop run task ?s"
    using Suc.prems by (subst agent_loop.simps) simp
  ultimately show ?case by (simp add: loop_body_simps)
qed

lemma run_state_first:
  assumes "k < 5"
    and "completion (final_answer (response run task g k))"
    and "\<forall>i<k. \<not> completion (final_answer (response run task g i))"
  shows "step (run_state run g task) = Suc k \<and> done_flag (run_state run g task)"
  using agent_loop_first[of "agent_init g task" k run task] assms
  by (simp add: run_state_def agent_init_def)

lemma run_state_ceiling:
  assumes "\<forall>i<5. \<not> completion (final_answer (response run task g i))"
  shows "step (run_state run g task) = 5 \<and> \<not> done_flag (run_state run g task)"
  using agent_loop_ceiling[of "agent_init g task" 5 run task] assms
  by (simp add: run_state_def agent_init_def)

lemma FakeGPT_responses:
  "\<not> completion (final_answer (response FakeGPT_run task FakeGPT_init 0))"
  "\<not> completion (final_answer (response FakeGPT_run task FakeGPT_init (Suc 0)))"
  "\<not> completion (final_answer (response FakeGPT_run task FakeGPT_init (Suc (Suc 0))))"
  "completion (final_answer (response FakeGPT_run task FakeGPT_init (Suc (Suc (Suc 0)))))"
  by (simp_all add: FakeGPT_run_def FakeGPT_init_def completion_def lower_char_def)

lemma FakeGPT_before_fourth:
  "\<forall>i<3. \<not> completion (final_answer (response FakeGPT_run task FakeGPT_init i))"
proof (intro allI impI)
  fix i :: nat
  assume "i < 3"
  then have "i = 0 \<or> i = Suc 0 \<or> i = Suc (Suc 0)" by arith
  then show "\<not> completion (final_answer (response FakeGPT_run task FakeGPT_init i))"
    using FakeGPT_responses(1-3)[of task] by auto
qed

lemma FakeGPT_fourth:
  "completion (final_answer (response FakeGPT_run task FakeGPT_init 3))"
  using FakeGPT_responses(4)[of task] by (simp add: numeral_3_eq_3)

lemma FakeGPT_run_state:
  "step (run_state FakeGPT_run FakeGPT_init task) = 4
   \<and> done_flag (run_state FakeGPT_run FakeGPT_init task)"
  using run_state_first[of 3 FakeGPT_run task FakeGPT_init]
        FakeGPT_before_fourth[of task] FakeGPT_fourth[of task]
  by simp

lemma waiting_response: "response waiting_run task g i = waiting_record"
  by (induction i arbitrary: g) (simp_all add: waiting_run_def)

lemma waiting_not_complete: "\<not> completion (final_answer waiting_record)"
  by (simp add: waiting_record_def completion_def lower_char_def)

text \<open>
  C1. The loop halts at the first step whose record's final answer holds the
  completion keyword: when the record of call \<open>k\<close> (counted from 0, below the
  ceiling) is the first such record, the run ends with the counter at \<open>k + 1\<close> and
  \<open>done\<close> set. Against \<open>FakeGPT\<close>, for any task, it ends after exactly 4 steps.
\<close>

theorem agent_halts_at_first_completion:
  assumes "k < 5"
    and "completion (final_answer (response run task g k))"
    and "\<forall>i<k. \<not> completion (final_answer (response run task g i))"
  shows "step (run_state run g task) = Suc k \<and> done_flag (run_state run g task)
         \<and> step (run_state FakeGPT_run FakeGPT_init task') = 4
         \<and> done_flag (run_state FakeGPT_run FakeGPT_init task')"
  using run_state_first[OF assms] FakeGPT_run_state[of task'] by simp

theorem agent_halts_at_first_completion_witness:
  "(3::nat) < 5
   \<and> completion (final_answer (response FakeGPT_run example_task FakeGPT_init 3))
   \<and> \<not> completion (final_answer (response FakeGPT_run example_task FakeGPT_init 0))
   \<and> \<not> completion (final_answer (response FakeGPT_run example_task FakeGPT_init 1))
   \<and> \<not> completion (final_answer (response FakeGPT_run example_task FakeGPT_init 2))
   \<and> step (run_state FakeGPT_run FakeGPT_init example_task) = Suc 3
   \<and> done_flag (run_state FakeGPT_run FakeGPT_init example_task)"
proof -
  have h1: "(3::nat) < 5" by simp
  have h2: "completion (final_answer (response FakeGPT_run example_task FakeGPT_init 3))"
    by (rule FakeGPT_fourth)
  have h3: "\<forall>i<3. \<not> completion (final_answer (response FakeGPT_run example_task FakeGPT_init i))"
    by (rule FakeGPT_before_fourth)
  have n0: "\<not> completion (final_answer (response FakeGPT_run example_task FakeGPT_init 0))"
    by (rule h3[rule_format]) simp
  have n1: "\<not> completion (final_answer (response FakeGPT_run example_task FakeGPT_init 1))"
    by (rule h3[rule_format]) simp
  have n2: "\<not> completion (final_answer (response FakeGPT_run example_task FakeGPT_init 2))"
    by (rule h3[rule_format]) simp
  have r: "step (run_state FakeGPT_run FakeGPT_init example_task) = Suc 3
           \<and> done_flag (run_state FakeGPT_run FakeGPT_init example_task)"
    using agent_halts_at_first_completion[OF h1 h2 h3, of example_task] by blast
  show ?thesis using h1 h2 n0 n1 n2 r by blast
qed



lemma run_state_last_step:
  "1 \<le> step (run_state run g task) \<and> step (run_state run g task) \<le> 5
   \<and> done_flag (run_state run g task)
       = completion (final_answer (response run task g (step (run_state run g task) - 1)))"
proof (cases "\<exists>k<5. completion (final_answer (response run task g k))")
  case True
  define P where "P k = (k < 5 \<and> completion (final_answer (response run task g k)))" for k
  from True have ex: "\<exists>k. P k" by (auto simp: P_def)
  define k where "k = (LEAST k. P k)"
  have pk: "P k" unfolding k_def using ex by (metis LeastI)
  have least: "\<forall>i<k. \<not> P i" unfolding k_def using not_less_Least by blast
  have "\<forall>i<k. \<not> completion (final_answer (response run task g i))"
    using least pk by (auto simp: P_def)
  with pk have "step (run_state run g task) = Suc k \<and> done_flag (run_state run g task)"
    using run_state_first[of k run task g] by (simp add: P_def)
  with pk show ?thesis by (simp add: P_def)
next
  case False
  then have "\<forall>i<5. \<not> completion (final_answer (response run task g i))" by blast
  from run_state_ceiling[OF this] this show ?thesis by simp
qed

text \<open>
  C3, as stated, fails: a run against \<open>FakeGPT\<close> completes (\<open>done\<close> set after 4
  steps) and a run against a backend that never completes stops at the ceiling (5
  steps, \<open>done\<close> unset), and both hand the same value, \<open>None\<close>, to the caller.
\<close>

theorem run_result_counterexample:
  "step (run_state FakeGPT_run FakeGPT_init example_task) = 4
   \<and> done_flag (run_state FakeGPT_run FakeGPT_init example_task)
   \<and> step (run_state waiting_run () example_task) = 5
   \<and> \<not> done_flag (run_state waiting_run () example_task)
   \<and> AIAgent_run FakeGPT_run FakeGPT_init example_task = AIAgent_run waiting_run () example_task"
proof -
  have "\<forall>i<5. \<not> completion (final_answer (response waiting_run example_task () i))"
    by (simp add: waiting_response waiting_not_complete)
  from run_state_ceiling[OF this] FakeGPT_run_state[of example_task] show ?thesis
    by (simp add: AIAgent_run_def)
qed

text \<open>
  C3, amended: \<open>AIAgent.run\<close> returns \<open>None\<close> on every run, so a completed run and a
  run stopped at the ceiling return the same value. The outcome lives only in the
  local flag \<open>done\<close>: the loop makes between 1 and 5 steps, and at its end the flag
  is set exactly when the final answer of the last step made holds the keyword.
\<close>

theorem run_returns_none:
  "AIAgent_run run g task = ()
   \<and> AIAgent_run run g task = AIAgent_run run' g' task'
   \<and> 1 \<le> step (run_state run g task) \<and> step (run_state run g task) \<le> 5
   \<and> done_flag (run_state run g task)
       = completion (final_answer (response run task g (step (run_state run g task) - 1)))"
  using run_state_last_step[of run g task] by (simp add: AIAgent_run_def)

lemma execute_tool_other:
  "action r \<noteq> ''CalendarAPI.check_availability'' \<Longrightarrow> action r \<noteq> ''EmailAPI.draft_email''
   \<Longrightarrow> execute_tool r = r"
  by (simp add: execute_tool_def)

lemma loop_body_printed:
  "run task (gpt s) = (r, g') \<Longrightarrow>
   printed (loop_body run task s)
     = printed s @ step_lines (str_nat (Suc (step s))) r (execute_tool r)"
  by (simp add: loop_body_def Let_def)

text \<open>
  C4, as stated, fails: for a record whose action is \<open>WeatherAPI.forecast\<close>, which
  is neither of the two tool identifiers nor \<open>none\<close>, the step leaves the record as
  it is and prints the six lines of an ordinary step: no error is raised and none
  is written.
\<close>

theorem unknown_action_counterexample:
  "action unknown_action_record \<noteq> ''CalendarAPI.check_availability''
   \<and> action unknown_action_record \<noteq> ''EmailAPI.draft_email''
   \<and> action unknown_action_record \<noteq> ''none''
   \<and> execute_tool unknown_action_record = unknown_action_record
   \<and> loop_body unknown_run ''t'' (agent_init () ''t'')
       = \<lparr>step = 1, done_flag = False, gpt = (),
          printed = [''User task: t'' @ nl,
                     ''--- Step 1 ---'',
                     ''Thought: I should look at the weather.'',
                     ''Plan: Ask the weather service.'',
                     ''Action: WeatherAPI.forecast'',
                     ''Observation: None yet.'',
                     ''Final Answer: Looking up the weather. '' @ nl]\<rparr>"
  by (simp add: unknown_action_record_def unknown_run_def execute_tool_def loop_body_def
      agent_init_def step_lines_def str_nat_def digit_char_def completion_def lower_char_def nl_def)

text \<open>
  C4, amended: a record whose action is neither of the two tool identifiers is
  handled as one whose action is \<open>none\<close>: no tool runs, the record (its observation
  too) stays as the backend gave it, and the step prints its six ordinary lines, the
  action echoed among them. No error is signalled or recorded.
\<close>

theorem unknown_action_is_ignored:
  assumes "action r \<noteq> ''CalendarAPI.check_availability''"
    and "action r \<noteq> ''EmailAPI.draft_email''"
    and "run task (gpt s) = (r, g')"
  shows "execute_tool r = r
         \<and> execute_tool (r\<lparr>action := ''none''\<rparr>) = r\<lparr>action := ''none''\<rparr>
         \<and> printed (loop_body run task s) = printed s @ step_lines (str_nat (Suc (step s))) r r
         \<and> step (loop_body run task s) = Suc (step s)
         \<and> gpt (loop_body run task s) = g'"
  using assms loop_body_printed[of run task s r g'] execute_tool_other[OF assms(1,2)]
  by (simp add: loop_body_step loop_body_gpt execute_tool_def)

theorem unknown_action_is_ignored_witness:
  "action unknown_action_record \<noteq> ''CalendarAPI.check_availability''
   \<and> action unknown_action_record \<noteq> ''EmailAPI.draft_email''
   \<and> unknown_run ''t'' (gpt (agent_init () ''t'')) = (unknown_action_record, ())
   \<and> execute_tool unknown_action_record = unknown_action_record
   \<and> printed (loop_body unknown_run ''t'' (agent_init () ''t''))
       = printed (agent_init () ''t'')
         @ step_lines (str_nat (Suc (step (agent_init () ''t''))))
             unknown_action_record unknown_action_record"
proof -
  have h1: "action unknown_action_record \<noteq> ''CalendarAPI.check_availability''"
    by (simp add: unknown_action_record_def)
  have h2: "action unknown_action_record \<noteq> ''EmailAPI.draft_email''"
    by (simp add: unknown_action_record_def)
  have h3: "unknown_run ''t'' (gpt (agent_init () ''t'')) = (unknown_action_record, ())"
    by (simp add: unknown_run_def)
  show ?thesis
    using unknown_action_is_ignored[of unknown_action_record unknown_run "''t''"
            "agent_init () ''t''" "()", OF h1 h2 h3] h1 h2 h3
    by blast
qed

section \<open>Properties of the two string functions\<close>

text \<open>
  The two code points whose lower-case form reaches into ASCII, and white space
  outside ASCII at both ends of a command.
\<close>

lemma lower_kelvin_sign:
  "lower (''MEET LIN'' @ [CHR 0xE2, CHR 0x84, CHR 0xAA]) = ''meet link''"
  by (simp add: lower_char_def)

lemma lower_capital_I_dot:
  "lower (''EMA'' @ [CHR 0xC4, CHR 0xB0] @ ''L'') = ''emai'' @ [CHR 0xCC, CHR 0x87] @ ''l''"
  by (simp add: lower_char_def)

lemma strip_no_break_space:
  "strip ([CHR 0xC2, CHR 0xA0] @ ''/exit'' @ [CHR 0xE2, CHR 0x80, CHR 0xA8, CHR 0x0A]) = ''/exit''"
  by (simp add: strip_def lstrip_def rstrip_def space2_def space3_def is_space_def)

section \<open>Properties of the tool router\<close>

lemma create_meeting_raises:
  "create_meeting tools
     = Inl (case get_service_real tools of Some e \<Rightarrow> e | None \<Rightarrow> timedelta_unbound)"
  by (simp add: create_meeting_def split: option.splits)

lemma real_router_sends_no_email:
  "\<not> list_ex is_email_call (fst (handle_tools_real tools t))"
  by (simp add: handle_tools_real_def create_meeting_raises Let_def split: sum.splits)

text \<open>
  C5. In both routers the keyword tests are made in a fixed order and the first
  that holds decides. A text that holds the calendar keyword (in any case), whatever
  other keyword it holds, the email keyword in particular, is answered by the
  calendar branch and by nothing else. In ai_agent.py that is the lookup for priya
  when she is named, else for shivam when he is named, with the slots in the result,
  and the question whose calendar is meant when neither is named; no email call is
  made. In gemini_real_assistant.py the one call is \<open>check_calendar\<close>, and the result
  is its answer behind the heading, or the exception it raises. In
  gemini_real_assistant.py a text \<open>t'\<close> without the calendar keyword that holds a
  meeting keyword, whatever else it holds, gets \<open>create_meeting\<close> as its one call,
  whose exception leaves the router; \<open>send_email\<close> is not called. (The email branch
  of that file begins with the same call, so there the order of the meeting test
  and the email test does not show in what the router does.)
\<close>

theorem calendar_before_email:
  "(py_in ''calendar'' (lower t) \<longrightarrow>
      handle_tools_assistant t
        = (if py_in ''priya'' (lower t) then
             ([CheckCalendar ''priya''],
              Some (''Priya'' @ apostrophe @ ''s availability: ''
                    @ str_list [''Thu 11AM'', ''Fri 2PM'']))
           else if py_in ''shivam'' (lower t) then
             ([CheckCalendar ''shivam''],
              Some (''Shivam'' @ apostrophe @ ''s availability: ''
                    @ str_list [''Wed 10AM'', ''Thu 11AM'']))
           else ([], Some ''Whose calendar do you want to check?''))
      \<and> \<not> list_ex is_email_call (fst (handle_tools_assistant t))
      \<and> handle_tools_real tools t
          = ([CheckCalendarReal],
             case check_calendar_real tools of
               Inl e \<Rightarrow> Inl e
             | Inr v \<Rightarrow> Inr (Some ([CHR 0xF0, CHR 0x9F, CHR 0x93, CHR 0x85]
                                  @ '' Upcoming events: '' @ v))))
   \<and> (\<not> py_in ''calendar'' (lower t')
        \<and> (py_in ''meeting'' (lower t') \<or> py_in ''meet link'' (lower t')) \<longrightarrow>
      handle_tools_real tools' t'
        = ([CreateMeeting],
           Inl (case get_service_real tools' of Some e \<Rightarrow> e | None \<Rightarrow> timedelta_unbound)))"
proof -
  have slots: "check_calendar ''priya'' = [''Thu 11AM'', ''Fri 2PM'']"
    "check_calendar ''shivam'' = [''Wed 10AM'', ''Thu 11AM'']"
    by (simp_all add: check_calendar_def check_calendar_slots_def lower_char_def)
  have a: "py_in ''calendar'' (lower t) \<Longrightarrow>
      handle_tools_assistant t
        = (if py_in ''priya'' (lower t) then
             ([CheckCalendar ''priya''],
              Some (''Priya'' @ apostrophe @ ''s availability: ''
                    @ str_list [''Thu 11AM'', ''Fri 2PM'']))
           else if py_in ''shivam'' (lower t) then
             ([CheckCalendar ''shivam''],
              Some (''Shivam'' @ apostrophe @ ''s availability: ''
                    @ str_list [''Wed 10AM'', ''Thu 11AM'']))
           else ([], Some ''Whose calendar do you want to check?''))"
    by (simp only: handle_tools_assistant_def calendar_branch_def Let_def slots if_True)
  have b: "py_in ''calendar'' (lower t) \<Longrightarrow>
      \<not> list_ex is_email_call (fst (handle_tools_assistant t))"
    by (simp add: handle_tools_assistant_def calendar_branch_def Let_def)
  have c: "py_in ''calendar'' (lower t) \<Longrightarrow>
      handle_tools_real tools t
          = ([CheckCalendarReal],
             case check_calendar_real tools of
               Inl e \<Rightarrow> Inl e
             | Inr v \<Rightarrow> Inr (Some ([CHR 0xF0, CHR 0x9F, CHR 0x93, CHR 0x85]
                                  @ '' Upcoming events: '' @ v)))"
    by (simp add: handle_tools_real_def split: sum.splits)
  have d: "\<not> py_in ''calendar'' (lower t') \<Longrightarrow>
      py_in ''meeting'' (lower t') \<or> py_in ''meet link'' (lower t') \<Longrightarrow>
      handle_tools_real tools' t'
        = ([CreateMeeting],
           Inl (case get_service_real tools' of Some e \<Rightarrow> e | None \<Rightarrow> timedelta_unbound))"
    by (simp add: handle_tools_real_def create_meeting_raises)
  show ?thesis using a b c d by blast
qed

lemma both_keywords:
  "py_in ''calendar'' (lower ''Check the Calendar and email Priya'')"
  "py_in ''email'' (lower ''Check the Calendar and email Priya'')"
  "py_in ''priya'' (lower ''Check the Calendar and email Priya'')"
  by (simp_all add: lower_char_def)

lemma meeting_and_email:
  "\<not> py_in ''calendar'' (lower kelvin_request)"
  "py_in ''meet link'' (lower kelvin_request)"
  "py_in ''email'' (lower kelvin_request)"
  by (simp_all add: kelvin_request_def lower_char_def)

theorem calendar_before_email_witness:
  "py_in ''calendar'' (lower ''Check the Calendar and email Priya'')
   \<and> py_in ''email'' (lower ''Check the Calendar and email Priya'')
   \<and> handle_tools_assistant ''Check the Calendar and email Priya''
       = ([CheckCalendar ''priya''],
          Some (''Priya'' @ apostrophe @ ''s availability: ''
                @ str_list [''Thu 11AM'', ''Fri 2PM'']))
   \<and> handle_tools_real stub_tools ''Check the Calendar and email Priya''
       = ([CheckCalendarReal],
          Inr (Some ([CHR 0xF0, CHR 0x9F, CHR 0x93, CHR 0x85]
                     @ '' Upcoming events: '' @ ''No upcoming events.'')))
   \<and> \<not> py_in ''calendar'' (lower kelvin_request)
   \<and> py_in ''meet link'' (lower kelvin_request)
   \<and> py_in ''email'' (lower kelvin_request)
   \<and> handle_tools_real stub_tools kelvin_request
       = ([CreateMeeting], Inl timedelta_unbound)"
proof -
  have s: "check_calendar_real stub_tools = Inr ''No upcoming events.''"
    "get_service_real stub_tools = None"
    by (simp_all add: stub_tools_def)
  have r: "handle_tools_assistant ''Check the Calendar and email Priya''
        = (if py_in ''priya'' (lower ''Check the Calendar and email Priya'') then
             ([CheckCalendar ''priya''],
              Some (''Priya'' @ apostrophe @ ''s availability: ''
                    @ str_list [''Thu 11AM'', ''Fri 2PM'']))
           else if py_in ''shivam'' (lower ''Check the Calendar and email Priya'') then
             ([CheckCalendar ''shivam''],
              Some (''Shivam'' @ apostrophe @ ''s availability: ''
                    @ str_list [''Wed 10AM'', ''Thu 11AM'']))
           else ([], Some ''Whose calendar do you want to check?''))
      \<and> handle_tools_real stub_tools ''Check the Calendar and email Priya''
          = ([CheckCalendarReal],
             case check_calendar_real stub_tools of
               Inl e \<Rightarrow> Inl e
             | Inr v \<Rightarrow> Inr (Some ([CHR 0xF0, CHR 0x9F, CHR 0x93, CHR 0x85]
                                  @ '' Upcoming events: '' @ v)))
      \<and> handle_tools_real stub_tools kelvin_request
        = ([CreateMeeting],
           Inl (case get_service_real stub_tools of
                  Some e \<Rightarrow> e | None \<Rightarrow> timedelta_unbound))"
    using calendar_before_email[of "''Check the Calendar and email Priya''" stub_tools
            kelvin_request stub_tools]
          both_keywords(1) meeting_and_email(1,2)
    by blast
  have r': "handle_tools_assistant ''Check the Calendar and email Priya''
       = ([CheckCalendar ''priya''],
          Some (''Priya'' @ apostrophe @ ''s availability: ''
                @ str_list [''Thu 11AM'', ''Fri 2PM'']))
     \<and> handle_tools_real stub_tools ''Check the Calendar and email Priya''
       = ([CheckCalendarReal],
          Inr (Some ([CHR 0xF0, CHR 0x9F, CHR 0x93, CHR 0x85]
                     @ '' Upcoming events: '' @ ''No upcoming events.'')))
     \<and> handle_tools_real stub_tools kelvin_request
       = ([CreateMeeting], Inl timedelta_unbound)"
    using r by (simp only: both_keywords(3) if_True s sum.case option.case)
  show ?thesis using r' both_keywords(1,2) meeting_and_email by blast
qed

text \<open>
  C6, as stated, fails: \<open>Send an email\<close> holds the email keyword and names no
  recipient the router knows, and the router of ai_agent.py calls the email
  capability with the stand-in address instead of asking back.
\<close>

theorem email_without_recipient_counterexample:
  "py_in ''email'' (lower ''Send an email'')
   \<and> \<not> py_in ''priya'' (lower ''Send an email'')
   \<and> \<not> py_in ''shivam'' (lower ''Send an email'')
   \<and> handle_tools_assistant ''Send an email''
       = ([SendEmail ''someone@example.com'' ''Meeting''
             (''Let'' @ apostrophe @ ''s connect at Thu 11AM.'')],
          Some (send_email ''someone@example.com'' ''Meeting''
             (''Let'' @ apostrophe @ ''s connect at Thu 11AM.'')))"
  by (simp add: handle_tools_assistant_def email_branch_def lower_char_def Let_def)

text \<open>
  C6, amended, for the router of ai_agent.py: a text \<open>t1\<close> with the calendar
  keyword that names neither priya nor shivam gets the question back and no tool is
  called; a text \<open>t2\<close> with the email keyword (and not the calendar keyword) that
  names neither gets no question: the email capability is called with
  \<open>someone@example.com\<close>, and its answer is the result of the turn.
\<close>

theorem clarification_only_for_calendar:
  "(py_in ''calendar'' (lower t1)
      \<and> \<not> py_in ''priya'' (lower t1) \<and> \<not> py_in ''shivam'' (lower t1) \<longrightarrow>
      handle_tools_assistant t1 = ([], Some ''Whose calendar do you want to check?''))
   \<and> (\<not> py_in ''calendar'' (lower t2) \<and> py_in ''email'' (lower t2)
        \<and> \<not> py_in ''priya'' (lower t2) \<and> \<not> py_in ''shivam'' (lower t2) \<longrightarrow>
      handle_tools_assistant t2
        = ([SendEmail ''someone@example.com'' ''Meeting''
              (''Let'' @ apostrophe @ ''s connect at Thu 11AM.'')],
           Some (''Email sent to someone@example.com with subject '' @ quote @ ''Meeting''
                 @ quote @ '' and body '' @ quote @ ''Let'' @ apostrophe
                 @ ''s connect at Thu 11AM.'' @ quote)))"
  by (simp add: handle_tools_assistant_def calendar_branch_def email_branch_def
      send_email_def Let_def)

lemma calendar_text:
  "py_in ''calendar'' (lower ''Check the calendar'')"
  "\<not> py_in ''priya'' (lower ''Check the calendar'')"
  "\<not> py_in ''shivam'' (lower ''Check the calendar'')"
  by (simp_all add: lower_char_def)

lemma email_text:
  "\<not> py_in ''calendar'' (lower ''Send an email'')"
  "py_in ''email'' (lower ''Send an email'')"
  "\<not> py_in ''priya'' (lower ''Send an email'')"
  "\<not> py_in ''shivam'' (lower ''Send an email'')"
  by (simp_all add: lower_char_def)

theorem clarification_only_for_calendar_witness:
  "py_in ''calendar'' (lower ''Check the calendar'')
   \<and> \<not> py_in ''priya'' (lower ''Check the calendar'')
   \<and> \<not> py_in ''shivam'' (lower ''Check the calendar'')
   \<and> handle_tools_assistant ''Check the calendar''
       = ([], Some ''Whose calendar do you want to check?'')
   \<and> \<not> py_in ''calendar'' (lower ''Send an email'')
   \<and> py_in ''email'' (lower ''Send an email'')
   \<and> \<not> py_in ''priya'' (lower ''Send an email'')
   \<and> \<not> py_in ''shivam'' (lower ''Send an email'')
   \<and> handle_tools_assistant ''Send an email''
       = ([SendEmail ''someone@example.com'' ''Meeting''
             (''Let'' @ apostrophe @ ''s connect at Thu 11AM.'')],
          Some (''Email sent to someone@example.com with subject '' @ quote @ ''Meeting''
                @ quote @ '' and body '' @ quote @ ''Let'' @ apostrophe
                @ ''s connect at Thu 11AM.'' @ quote))"
  using clarification_only_for_calendar[of "''Check the calendar''" "''Send an email''"]
        calendar_text email_text
  by blast

section \<open>Properties of the calendar lookups\<close>

text \<open>
  C9, as stated, fails for the lookup of the assistant: \<open>check_calendar\<close> knows
  shivam and priya only, and for \<open>bob\<close> it returns a list of one string that is no
  time slot.
\<close>

theorem check_calendar_counterexample:
  "map_of check_calendar_slots (lower ''bob'') = None
   \<and> check_calendar ''bob'' = [''No availability found.'']
   \<and> check_calendar ''bob'' \<noteq> []"
  by (simp add: check_calendar_def check_calendar_slots_def lower_char_def)

text \<open>
  C9, amended: \<open>CalendarAPI.check_availability\<close> returns the empty list for every
  person other than \<open>user\<close> and \<open>Priya\<close>; \<open>check_calendar\<close> of the assistant
  returns the one-element list \<open>["No availability found."]\<close> for every name whose
  lower-case form is neither \<open>shivam\<close> nor \<open>priya\<close>. Neither fails.
\<close>

theorem unknown_person_lookup:
  assumes "person \<noteq> ''user''" and "person \<noteq> ''Priya''"
    and "lower u \<noteq> ''shivam''" and "lower u \<noteq> ''priya''"
  shows "check_availability person = []
         \<and> check_calendar u = [''No availability found.'']"
  using assms
  by (simp add: check_availability_def CalendarAPI_slots_def check_calendar_def
      check_calendar_slots_def)

theorem unknown_person_lookup_witness:
  "''bob'' \<noteq> ''user'' \<and> ''bob'' \<noteq> ''Priya''
   \<and> lower ''Bob'' \<noteq> ''shivam'' \<and> lower ''Bob'' \<noteq> ''priya''
   \<and> check_availability ''bob'' = []
   \<and> check_calendar ''Bob'' = [''No availability found.'']"
proof -
  have h1: "''bob'' \<noteq> ''user''" by simp
  have h2: "''bob'' \<noteq> ''Priya''" by simp
  have h3: "lower ''Bob'' \<noteq> ''shivam''" by (simp add: lower_char_def)
  have h4: "lower ''Bob'' \<noteq> ''priya''" by (simp add: lower_char_def)
  show ?thesis using unknown_person_lookup[OF h1 h2 h3 h4] h1 h2 h3 h4 by blast
qed

section \<open>Properties of the history store\<close>

lemma load_lines_chat_append:
  "load_lines_chat (ls @ ls') acc =
     (case load_lines_chat ls acc of Inl e \<Rightarrow> Inl e | Inr h \<Rightarrow> load_lines_chat ls' h)"
  by (induction ls acc rule: load_lines_chat.induct) (auto split: option.splits)

lemma load_lines_assistant_append:
  "load_lines_assistant (ls @ ls') acc =
     (case load_lines_assistant ls acc of Inl e \<Rightarrow> Inl e | Inr h \<Rightarrow> load_lines_assistant ls' h)"
  by (induction ls acc rule: load_lines_assistant.induct) (auto split: option.splits)

lemma append_history_terminated: "line_terminated (append_history now r c f)"
  by (simp add: append_history_def write_line_def line_terminated_def split: tail.splits)

lemma append_all_terminated: "line_terminated f \<Longrightarrow> line_terminated (append_all ts f)"
proof (induction ts arbitrary: f)
  case Nil
  then show ?case by (simp add: append_all_def)
next
  case (Cons t ts)
  have "line_terminated (append_turn f t)"
    by (cases t) (simp add: append_turn_def append_history_terminated)
  from Cons.IH[OF this] show ?case by (simp add: append_all_def)
qed

lemma load_chat_after_append:
  assumes "line_terminated f" and "load_history_chat f = Inr h"
  shows "load_history_chat (append_history now r c f)
           = Inr (if r = ''user'' \<or> r = ''model'' then h @ [\<lparr>role = r, parts = [c]\<rparr>] else h)"
proof (cases f)
  case None
  with assms show ?thesis
    by (auto simp: load_history_chat_def append_history_def write_line_def empty_file_def
        read_lines_def)
next
  case (Some tr)
  with assms have "tail tr = Terminated" and "load_lines_chat (ended tr) [] = Inr h"
    by (simp_all add: load_history_chat_def line_terminated_def read_lines_def)
  with Some show ?thesis
    by (auto simp: load_history_chat_def append_history_def write_line_def read_lines_def
        load_lines_chat_append)
qed

lemma load_assistant_after_append:
  assumes "line_terminated f" and "load_history_assistant f = Inr h"
  shows "load_history_assistant (append_history now r c f) = Inr (h @ [\<lparr>role = r, parts = [c]\<rparr>])"
proof (cases f)
  case None
  with assms show ?thesis
    by (auto simp: load_history_assistant_def append_history_def write_line_def empty_file_def
        read_lines_def)
next
  case (Some tr)
  with assms have "tail tr = Terminated" and "load_lines_assistant (ended tr) [] = Inr h"
    by (simp_all add: load_history_assistant_def line_terminated_def read_lines_def)
  with Some show ?thesis
    by (auto simp: load_history_assistant_def append_history_def write_line_def read_lines_def
        load_lines_assistant_append)
qed

text \<open>
  After a tail that holds other text than blanks the record joins the tail's line,
  and the next load raises on that line.
\<close>

lemma append_after_dangling_tail:
  assumes "tail tr = Dangling l"
  shows "load_lines_chat (ended tr) [] = Inr h \<Longrightarrow>
           load_history_chat (append_history now r c (Some tr)) = Inl JSONDecodeError"
    and "load_lines_assistant (ended tr) [] = Inr h \<Longrightarrow>
           load_history_assistant (append_history now r c (Some tr)) = Inl JSONDecodeError"
  using assms
  by (simp_all add: load_history_chat_def load_history_assistant_def append_history_def
      write_line_def read_lines_def load_lines_chat_append load_lines_assistant_append)

lemma load_chat_after_append_all:
  "line_terminated f \<Longrightarrow> load_history_chat f = Inr h \<Longrightarrow>
   load_history_chat (append_all ts f) = Inr (h @ map turn_entry (filter kept ts))"
proof (induction ts arbitrary: f h)
  case Nil
  then show ?case by (simp add: append_all_def)
next
  case (Cons t ts)
  obtain now r c where t: "t = (now, r, c)" by (cases t) auto
  have a: "load_history_chat (append_turn f t) = Inr (h @ map turn_entry (filter kept [t]))"
    using load_chat_after_append[OF Cons.prems, of now r c] t
    by (auto simp: append_turn_def turn_entry_def kept_def turn_role_def)
  have b: "line_terminated (append_turn f t)"
    using t by (simp add: append_turn_def append_history_terminated)
  from Cons.IH[OF b a] show ?case by (simp add: append_all_def)
qed

lemma load_assistant_after_append_all:
  "line_terminated f \<Longrightarrow> load_history_assistant f = Inr h \<Longrightarrow>
   load_history_assistant (append_all ts f) = Inr (h @ map turn_entry ts)"
proof (induction ts arbitrary: f h)
  case Nil
  then show ?case by (simp add: append_all_def)
next
  case (Cons t ts)
  obtain now r c where t: "t = (now, r, c)" by (cases t) auto
  have a: "load_history_assistant (append_turn f t) = Inr (h @ [turn_entry t])"
    using load_assistant_after_append[OF Cons.prems, of now r c] t
    by (auto simp: append_turn_def turn_entry_def)
  have b: "line_terminated (append_turn f t)"
    using t by (simp add: append_turn_def append_history_terminated)
  from Cons.IH[OF b a] show ?case by (simp add: append_all_def)
qed

text \<open>
  C7, as stated, fails for gemini_chat.py: a turn appended with the role
  \<open>assistant\<close> is written to the file, and the load that follows returns no turn.
\<close>

theorem append_then_load_counterexample:
  "append_all [(''2024-05-01T10:00:00+00:00'', ''assistant'', ''Hello'')] None
     = Some \<lparr>ended = [Object [''ts'' \<mapsto> ''2024-05-01T10:00:00+00:00'',
                               ''role'' \<mapsto> ''assistant'', ''content'' \<mapsto> ''Hello'']],
             tail = Terminated\<rparr>
   \<and> load_history_chat
       (append_all [(''2024-05-01T10:00:00+00:00'', ''assistant'', ''Hello'')] None) = Inr []
   \<and> map turn_entry [(''2024-05-01T10:00:00+00:00'', ''assistant'', ''Hello'')]
       = [\<lparr>role = ''assistant'', parts = [''Hello'']\<rparr>]"
  by (simp add: append_all_def append_turn_def append_history_def write_line_def empty_file_def
      read_lines_def load_history_chat_def turn_entry_def)

text \<open>
  C7, amended. Let the transcript be missing, or empty, or end with a line break
  (as every transcript does that only \<open>append_history\<close> has written), and let a load
  of it succeed. In gemini_chat.py the load after the appends returns what the load
  before them returned, followed by the appended turns whose role is \<open>user\<close> or
  \<open>model\<close>, role and content kept, in append order: all of them when every role is
  one of the two, and none of the turns with another role, which are in the file
  all the same. In the assistant of ai_agent.py the load after the appends returns
  what the load before them returned followed by every appended turn, whatever its
  role. From a missing file the loads return just those turns.
\<close>

theorem append_then_load:
  "(line_terminated f \<and> load_history_chat f = Inr h \<longrightarrow>
      load_history_chat (append_all ts f) = Inr (h @ map turn_entry (filter kept ts)))
   \<and> (list_all kept ts \<longrightarrow> load_history_chat (append_all ts None) = Inr (map turn_entry ts))
   \<and> (line_terminated f' \<and> load_history_assistant f' = Inr h' \<longrightarrow>
      load_history_assistant (append_all ts' f') = Inr (h' @ map turn_entry ts'))
   \<and> load_history_assistant (append_all ts' None) = Inr (map turn_entry ts')"
proof -
  have n0: "line_terminated None" by (simp add: line_terminated_def)
  have n1: "load_history_chat None = Inr []" by (simp add: load_history_chat_def)
  have n2: "load_history_assistant None = Inr []" by (simp add: load_history_assistant_def)
  have k: "list_all kept ts \<Longrightarrow> filter kept ts = ts"
    by (induction ts) simp_all
  have a: "line_terminated f \<Longrightarrow> load_history_chat f = Inr h \<Longrightarrow>
      load_history_chat (append_all ts f) = Inr (h @ map turn_entry (filter kept ts))"
    by (rule load_chat_after_append_all)
  have b: "list_all kept ts \<Longrightarrow> load_history_chat (append_all ts None) = Inr (map turn_entry ts)"
    using load_chat_after_append_all[OF n0 n1, of ts] k by simp
  have c: "line_terminated f' \<Longrightarrow> load_history_assistant f' = Inr h' \<Longrightarrow>
      load_history_assistant (append_all ts' f') = Inr (h' @ map turn_entry ts')"
    by (rule load_assistant_after_append_all)
  have d: "load_history_assistant (append_all ts' None) = Inr (map turn_entry ts')"
    using load_assistant_after_append_all[OF n0 n2, of ts'] by simp
  show ?thesis using a b c d by blast
qed

theorem append_then_load_witness:
  "line_terminated (Some earlier_file)
   \<and> load_history_chat (Some earlier_file) = Inr [\<lparr>role = ''user'', parts = [''Earlier'']\<rparr>]
   \<and> load_history_chat
       (append_all [(''t1'', ''user'', ''Hi''), (''t2'', ''assistant'', ''Hey''),
                    (''t3'', ''model'', ''Hello!'')] (Some earlier_file))
       = Inr [\<lparr>role = ''user'', parts = [''Earlier'']\<rparr>, \<lparr>role = ''user'', parts = [''Hi'']\<rparr>,
              \<lparr>role = ''model'', parts = [''Hello!'']\<rparr>]
   \<and> load_history_assistant (Some earlier_file) = Inr [\<lparr>role = ''user'', parts = [''Earlier'']\<rparr>]
   \<and> load_history_assistant
       (append_all [(''t1'', ''user'', ''Hi''), (''t2'', ''assistant'', ''Hey'')]
          (Some earlier_file))
       = Inr [\<lparr>role = ''user'', parts = [''Earlier'']\<rparr>, \<lparr>role = ''user'', parts = [''Hi'']\<rparr>,
              \<lparr>role = ''assistant'', parts = [''Hey'']\<rparr>]"
proof -
  have h0: "line_terminated (Some earlier_file)"
    by (simp add: line_terminated_def earlier_file_def)
  have h1: "load_history_chat (Some earlier_file)
              = Inr [\<lparr>role = ''user'', parts = [''Earlier'']\<rparr>]"
    by (simp add: load_history_chat_def earlier_file_def read_lines_def)
  have h2: "load_history_assistant (Some earlier_file)
              = Inr [\<lparr>role = ''user'', parts = [''Earlier'']\<rparr>]"
    by (simp add: load_history_assistant_def earlier_file_def read_lines_def)
  show ?thesis
    using append_then_load[of "Some earlier_file" "[\<lparr>role = ''user'', parts = [''Earlier'']\<rparr>]"
            "[(''t1'', ''user'', ''Hi''), (''t2'', ''assistant'', ''Hey''),
              (''t3'', ''model'', ''Hello!'')]"
            "Some earlier_file" "[\<lparr>role = ''user'', parts = [''Earlier'']\<rparr>]"
            "[(''t1'', ''user'', ''Hi''), (''t2'', ''assistant'', ''Hey'')]"]
          h0 h1 h2
    by (simp add: turn_entry_def kept_def turn_role_def)
qed

lemma load_lines_chat_filter:
  "list_all well_formed ls \<Longrightarrow>
   load_lines_chat ls acc = Inr (acc @ map line_entry (filter replayed ls))"
  by (induction ls acc rule: load_lines_chat.induct) (auto simp: replayed_def)

text \<open>
  C10. When every line of the transcript is well formed, \<open>load_history\<close> of
  gemini_chat.py returns, with no error, the entries of the lines whose role is
  \<open>user\<close> or \<open>model\<close>, in the order of the file; a line with any other role
  contributes nothing.
\<close>

theorem load_drops_other_roles:
  assumes "list_all well_formed (read_lines tr)"
  shows "load_history_chat (Some tr) = Inr (map line_entry (filter replayed (read_lines tr)))"
  using load_lines_chat_filter[OF assms, of "[]"] by (simp add: load_history_chat_def)

theorem load_drops_other_roles_witness:
  "list_all well_formed (read_lines mixed_file)
   \<and> read_lines mixed_file
       = [Object [''ts'' \<mapsto> ''t1'', ''role'' \<mapsto> ''user'', ''content'' \<mapsto> ''Hi''],
          Object [''ts'' \<mapsto> ''t2'', ''role'' \<mapsto> ''assistant'', ''content'' \<mapsto> ''Hello''],
          Object [''ts'' \<mapsto> ''t3'', ''role'' \<mapsto> ''tool-observation'', ''content'' \<mapsto> ''Thu 11AM''],
          Object [''ts'' \<mapsto> ''t4'', ''role'' \<mapsto> ''model'', ''content'' \<mapsto> ''Done'']]
   \<and> load_history_chat (Some mixed_file)
       = Inr [\<lparr>role = ''user'', parts = [''Hi'']\<rparr>, \<lparr>role = ''model'', parts = [''Done'']\<rparr>]"
proof -
  have r: "read_lines mixed_file
       = [Object [''ts'' \<mapsto> ''t1'', ''role'' \<mapsto> ''user'', ''content'' \<mapsto> ''Hi''],
          Object [''ts'' \<mapsto> ''t2'', ''role'' \<mapsto> ''assistant'', ''content'' \<mapsto> ''Hello''],
          Object [''ts'' \<mapsto> ''t3'', ''role'' \<mapsto> ''tool-observation'', ''content'' \<mapsto> ''Thu 11AM''],
          Object [''ts'' \<mapsto> ''t4'', ''role'' \<mapsto> ''model'', ''content'' \<mapsto> ''Done'']]"
    by (simp add: read_lines_def mixed_file_def)
  have h: "list_all well_formed (read_lines mixed_file)"
    by (simp add: r)
  show ?thesis using load_drops_other_roles[OF h] h r by (simp add: replayed_def)
qed

section \<open>Properties of the interactive chat\<close>

lemma model_turn_failed:
  assumes "reply_fails (model_reply env)"
  shows "next_transcript (model_turn user env s)
           = append_history (now_user env) ''user'' user (transcript s)
         \<and> continues (model_turn user env s) = reply_caught (model_reply env)"
proof (cases "model_reply env")
  case (SendFails e)
  then show ?thesis by (cases e) (simp_all add: model_turn_def emit_def)
next
  case (Stream chunks failure)
  with assms obtain e where "failure = Some e" by (cases failure) auto
  with Stream show ?thesis
    by (cases e) (simp_all add: model_turn_def emit_def Let_def split: prod.splits)
qed

lemma chat_body_chat_normal:
  assumes "strip raw \<noteq> []" and "lower (strip raw) \<noteq> ''/exit''"
    and "lower (strip raw) \<noteq> ''/reset''"
  shows "chat_body_chat (Typed raw) env s = model_turn (strip raw) env (emit ''You: '' s)"
  using assms by (simp add: chat_body_chat_def Let_def)

lemma chat_body_assistant_normal:
  assumes "strip raw \<noteq> []" and "lower (strip raw) \<noteq> ''/exit''"
    and "lower (strip raw) \<noteq> ''/reset''"
    and "snd (handle_tools_assistant (strip raw)) = None"
  shows "chat_body_assistant (Typed raw) env s = model_turn (strip raw) env (emit ''You: '' s)"
  using assms by (simp add: chat_body_assistant_def Let_def)

lemma transcript_emit: "transcript (emit text s) = transcript s"
  by (simp add: emit_def)

text \<open>
  C8. In gemini_chat.py, for an input \<open>raw\<close> that is no command, when the model
  call raises or its stream raises part way, the pass of the loop leaves the
  transcript with the record of the user turn written at its end and nothing
  after it: no model turn for the exchange. The loop goes on to the next input
  exactly when what was raised is an \<open>Exception\<close>; a \<open>KeyboardInterrupt\<close> or
  \<open>SystemExit\<close> leaves \<open>interactive_chat\<close>, with the transcript in that same
  state. When the transcript before was missing, or empty, or ended with a line
  break, and a load of it gave \<open>h\<close>, a load afterwards gives \<open>h\<close> followed by the
  user turn. The same holds in the assistant of ai_agent.py for an input \<open>raw'\<close>
  that is no command and that no tool answers.
\<close>

theorem failed_reply_keeps_user_turn:
  "(strip raw \<noteq> [] \<and> lower (strip raw) \<noteq> ''/exit'' \<and> lower (strip raw) \<noteq> ''/reset''
      \<and> reply_fails (model_reply env) \<longrightarrow>
      next_transcript (chat_body_chat (Typed raw) env s)
        = append_history (now_user env) ''user'' (strip raw) (transcript s)
      \<and> continues (chat_body_chat (Typed raw) env s) = reply_caught (model_reply env)
      \<and> (line_terminated (transcript s) \<and> load_history_chat (transcript s) = Inr h \<longrightarrow>
           load_history_chat (next_transcript (chat_body_chat (Typed raw) env s))
             = Inr (h @ [\<lparr>role = ''user'', parts = [strip raw]\<rparr>])))
   \<and> (strip raw' \<noteq> [] \<and> lower (strip raw') \<noteq> ''/exit'' \<and> lower (strip raw') \<noteq> ''/reset''
      \<and> snd (handle_tools_assistant (strip raw')) = None
      \<and> reply_fails (model_reply env') \<longrightarrow>
      next_transcript (chat_body_assistant (Typed raw') env' s')
        = append_history (now_user env') ''user'' (strip raw') (transcript s')
      \<and> continues (chat_body_assistant (Typed raw') env' s') = reply_caught (model_reply env')
      \<and> (line_terminated (transcript s') \<and> load_history_assistant (transcript s') = Inr h' \<longrightarrow>
           load_history_assistant (next_transcript (chat_body_assistant (Typed raw') env' s'))
             = Inr (h' @ [\<lparr>role = ''user'', parts = [strip raw']\<rparr>])))"
proof -
  have a: "next_transcript (chat_body_chat (Typed raw) env s)
             = append_history (now_user env) ''user'' (strip raw) (transcript s)
           \<and> continues (chat_body_chat (Typed raw) env s) = reply_caught (model_reply env)"
    if "strip raw \<noteq> []" "lower (strip raw) \<noteq> ''/exit''" "lower (strip raw) \<noteq> ''/reset''"
      "reply_fails (model_reply env)"
    using chat_body_chat_normal[OF that(1-3), of env s]
      model_turn_failed[OF that(4), of "strip raw" "emit ''You: '' s"]
    by (simp add: transcript_emit)
  have b: "next_transcript (chat_body_assistant (Typed raw') env' s')
             = append_history (now_user env') ''user'' (strip raw') (transcript s')
           \<and> continues (chat_body_assistant (Typed raw') env' s')
               = reply_caught (model_reply env')"
    if "strip raw' \<noteq> []" "lower (strip raw') \<noteq> ''/exit''" "lower (strip raw') \<noteq> ''/reset''"
      "snd (handle_tools_assistant (strip raw')) = None" "reply_fails (model_reply env')"
    using chat_body_assistant_normal[OF that(1-4), of env' s']
      model_turn_failed[OF that(5), of "strip raw'" "emit ''You: '' s'"]
    by (simp add: transcript_emit)
  have c: "load_history_chat (append_history (now_user env) ''user'' (strip raw) (transcript s))
             = Inr (h @ [\<lparr>role = ''user'', parts = [strip raw]\<rparr>])"
    if "line_terminated (transcript s)" "load_history_chat (transcript s) = Inr h"
    using load_chat_after_append[OF that, of "now_user env" "''user''" "strip raw"] by simp
  have d: "load_history_assistant
               (append_history (now_user env') ''user'' (strip raw') (transcript s'))
             = Inr (h' @ [\<lparr>role = ''user'', parts = [strip raw']\<rparr>])"
    if "line_terminated (transcript s')" "load_history_assistant (transcript s') = Inr h'"
    using load_assistant_after_append[OF that, of "now_user env'" "''user''" "strip raw'"]
    by simp
  show ?thesis using a b c d by metis
qed

lemma joke_input:
  "strip ''  Tell me a joke  '' = ''Tell me a joke''"
  by (simp add: strip_def lstrip_def rstrip_def space2_def space3_def is_space_def)

lemma email_input:
  "strip padded_question = ''What is an e-mail?''"
  by (simp add: padded_question_def strip_def lstrip_def rstrip_def space2_def space3_def
      is_space_def)

lemma no_break_space_exit:
  "chat_body_chat (Typed ([CHR 0xC2, CHR 0xA0] @ ''/Exit'')) env s
     = Break (emit (bye @ nl) (emit ''You: '' s))"
  by (simp add: chat_body_chat_def strip_def lstrip_def rstrip_def space2_def space3_def
      is_space_def lower_char_def)

lemma joke_no_tool: "snd (handle_tools_assistant ''Tell me a joke'') = None"
  by (simp add: handle_tools_assistant_def lower_char_def)

theorem failed_reply_keeps_user_turn_witness:
  "strip padded_question \<noteq> []
   \<and> lower (strip padded_question) \<noteq> ''/exit''
   \<and> lower (strip padded_question) \<noteq> ''/reset''
   \<and> reply_fails (model_reply failing_env)
   \<and> line_terminated (transcript fresh_session)
   \<and> load_history_chat (transcript fresh_session) = Inr []
   \<and> continues (chat_body_chat (Typed padded_question)
                  failing_env fresh_session)
   \<and> load_history_chat
       (next_transcript (chat_body_chat (Typed padded_question)
                           failing_env fresh_session))
       = Inr [\<lparr>role = ''user'', parts = [''What is an e-mail?'']\<rparr>]
   \<and> strip ''  Tell me a joke  '' \<noteq> []
   \<and> lower (strip ''  Tell me a joke  '') \<noteq> ''/exit''
   \<and> lower (strip ''  Tell me a joke  '') \<noteq> ''/reset''
   \<and> snd (handle_tools_assistant (strip ''  Tell me a joke  '')) = None
   \<and> reply_fails (model_reply interrupted_env)
   \<and> line_terminated (transcript fresh_session)
   \<and> load_history_assistant (transcript fresh_session) = Inr []
   \<and> \<not> continues (chat_body_assistant (Typed ''  Tell me a joke  '')
                    interrupted_env fresh_session)
   \<and> load_history_assistant
       (next_transcript (chat_body_assistant (Typed ''  Tell me a joke  '')
                           interrupted_env fresh_session))
       = Inr [\<lparr>role = ''user'', parts = [''Tell me a joke'']\<rparr>]"
proof -
  have g1: "strip padded_question \<noteq> []"
    by (simp add: email_input)
  have g2: "lower (strip padded_question) \<noteq> ''/exit''"
    by (simp add: email_input lower_char_def)
  have g3: "lower (strip padded_question) \<noteq> ''/reset''"
    by (simp add: email_input lower_char_def)
  have g4: "reply_fails (model_reply failing_env)" by (simp add: failing_env_def)
  have g5: "reply_caught (model_reply failing_env)" by (simp add: failing_env_def)
  have h1: "strip ''  Tell me a joke  '' \<noteq> []" by (simp add: joke_input)
  have h2: "lower (strip ''  Tell me a joke  '') \<noteq> ''/exit''"
    by (simp add: joke_input lower_char_def)
  have h3: "lower (strip ''  Tell me a joke  '') \<noteq> ''/reset''"
    by (simp add: joke_input lower_char_def)
  have h4: "snd (handle_tools_assistant (strip ''  Tell me a joke  '')) = None"
    by (simp add: joke_input joke_no_tool)
  have h5: "reply_fails (model_reply interrupted_env)" by (simp add: interrupted_env_def)
  have h6: "\<not> reply_caught (model_reply interrupted_env)" by (simp add: interrupted_env_def)
  have f0: "line_terminated (transcript fresh_session)"
    by (simp add: fresh_session_def line_terminated_def)
  have f1: "load_history_chat (transcript fresh_session) = Inr []"
    by (simp add: fresh_session_def load_history_chat_def)
  have f2: "load_history_assistant (transcript fresh_session) = Inr []"
    by (simp add: fresh_session_def load_history_assistant_def)
  have t: "continues (chat_body_chat (Typed padded_question)
                        failing_env fresh_session)
           \<and> load_history_chat
               (next_transcript
                  (chat_body_chat (Typed padded_question)
                     failing_env fresh_session))
               = Inr ([] @ [\<lparr>role = ''user'',
                              parts = [strip padded_question]\<rparr>])
           \<and> \<not> continues (chat_body_assistant (Typed ''  Tell me a joke  '')
                            interrupted_env fresh_session)
           \<and> load_history_assistant
               (next_transcript (chat_body_assistant (Typed ''  Tell me a joke  '')
                                   interrupted_env fresh_session))
               = Inr ([] @ [\<lparr>role = ''user'', parts = [strip ''  Tell me a joke  '']\<rparr>])"
    using failed_reply_keeps_user_turn[of padded_question
            failing_env fresh_session "[]" "''  Tell me a joke  ''" interrupted_env
            fresh_session "[]"]
          g1 g2 g3 g4 g5 h1 h2 h3 h4 h5 h6 f0 f1 f2
    by blast
  show ?thesis
    using t g1 g2 g3 g4 h1 h2 h3 h4 h5 f0 f1 f2
    by (simp only: email_input joke_input append_Nil) blast
qed

end
